theory Spec2Isabelle
  imports Main "HOL-Library.Word"
begin

section \<open>The jobs worker of the cluster agent\<close>

text \<open>
  A shallow embedding of \<^verbatim>\<open>JobsWorker\<close> (package \<^verbatim>\<open>workers\<close>): the aggregation pass
  (\<^verbatim>\<open>buildAppDMetrics\<close>, \<^verbatim>\<open>processObject\<close>, \<^verbatim>\<open>summarize\<close>), the queue flusher
  (\<^verbatim>\<open>flushQueue\<close>, \<^verbatim>\<open>getNextQueueItem\<close>, \<^verbatim>\<open>postJobRecords\<close>), the construction of
  the worker and the informer callbacks.

  A run-time panic of the Go program is a value of type \<open>panic\<close>; a call that never
  returns (a \<^verbatim>\<open>Get\<close> on an empty queue that is not shutting down) is the outcome
  \<open>Blocked\<close>. What the program prints and the calls it makes on its collaborators are
  collected, in program order, in a list of events.
\<close>

subsection \<open>Go values\<close>

datatype panic = NilDereference | TypeAssertion

text \<open>
  A \<^verbatim>\<open>time.Time\<close> is an instant, in nanoseconds since the Unix epoch; a
  \<^verbatim>\<open>time.Duration\<close> is a count of nanoseconds held in an \<^verbatim>\<open>int64\<close>.
  \<^verbatim>\<open>Time.Sub\<close> returns the difference of two instants, and the largest or smallest
  \<^verbatim>\<open>Duration\<close> when the difference does not fit.
\<close>

type_synonym Time = int
type_synonym Duration = int

definition zeroTime :: Time where
  "zeroTime = - 62135596800 * 1000000000"

definition maxDuration :: Duration where
  "maxDuration = 2 ^ 63 - 1"

definition minDuration :: Duration where
  "minDuration = - (2 ^ 63)"

definition time_Sub :: "Time \<Rightarrow> Time \<Rightarrow> Duration" where
  "time_Sub t u =
     (let d = t - u
      in if d < minDuration then minDuration
         else if maxDuration < d then maxDuration
         else d)"

text \<open>
  What the program takes from its run time: the clock read by \<^verbatim>\<open>time.Since\<close>, and the
  two conversions that involve a \<^verbatim>\<open>float64\<close>, \<^verbatim>\<open>Duration.Seconds\<close> and the
  conversion \<^verbatim>\<open>int64(f)\<close>. The type \<open>'f\<close> stands for \<^verbatim>\<open>float64\<close>; its arithmetic is
  not modelled, so the two conversions are parameters. The objects of one pass read
  the same instant.
\<close>

record 'f GoRuntime =
  Now :: Time
  Seconds :: "Duration \<Rightarrow> 'f"
  int64_of_float :: "'f \<Rightarrow> 64 word"

definition time_Since :: "'f GoRuntime \<Rightarrow> Time \<Rightarrow> Duration" where
  "time_Since rt t = time_Sub (Now rt) t"

subsection \<open>The data model\<close>

text \<open>The fields of \<^verbatim>\<open>models.AppDBag\<close> that the worker reads.\<close>

record AppDBag =
  AppName :: string
  TierName :: string
  EventAPILimit :: int
  JobSchemaName :: string

text \<open>
  The fields of a \<^verbatim>\<open>batch/v1.Job\<close> that \<^verbatim>\<open>processObject\<close> reads. A pointer field is
  an option, \<open>None\<close> for \<^verbatim>\<open>nil\<close>. Labels and annotations are Go maps; the lists give
  their entries in the order the \<^verbatim>\<open>range\<close> loop visits them.
\<close>

record Job =
  Meta_ClusterName :: string
  Meta_Name :: string
  Meta_Namespace :: string
  Meta_Labels :: "(string \<times> string) list"
  Meta_Annotations :: "(string \<times> string) list"
  Status_Active :: "32 word"
  Status_Succeeded :: "32 word"
  Status_Failed :: "32 word"
  Status_StartTime :: "Time option"
  Status_CompletionTime :: "Time option"
  Spec_ActiveDeadlineSeconds :: "64 word option"
  Spec_Completions :: "32 word option"
  Spec_BackoffLimit :: "32 word option"
  Spec_Parallelism :: "32 word option"

text \<open>
  Modelled from the spec: the type \<^verbatim>\<open>models.JobSchema\<close> and its constructor
  \<^verbatim>\<open>models.NewJobObj\<close> are declared outside the given sources. The record has the
  fields that \<^verbatim>\<open>processObject\<close> assigns (the spec's normalized record: identifiers,
  serialized labels and annotations, active, success and failed counts, start and end
  timestamps, computed duration, spec limits), and a new record holds Go's zero values.
\<close>

record 'f JobSchema =
  ClusterName :: string
  Name :: string
  Namespace :: string
  Labels :: string
  Annotations :: string
  Active :: "32 word"
  Success :: "32 word"
  Failed :: "32 word"
  StartTime :: Time
  EndTime :: Time
  Duration :: 'f
  ActiveDeadlineSeconds :: "64 word"
  Completions :: "32 word"
  BackoffLimit :: "32 word"
  Parallelism :: "32 word"

definition NewJobObj :: "('f::zero) JobSchema" where
  "NewJobObj =
     \<lparr>ClusterName = [], Name = [], Namespace = [], Labels = [], Annotations = [],
      Active = 0, Success = 0, Failed = 0, StartTime = zeroTime, EndTime = zeroTime,
      Duration = 0, ActiveDeadlineSeconds = 0, Completions = 0, BackoffLimit = 0,
      Parallelism = 0\<rparr>"

definition ALL_key :: string where
  "ALL_key = ''all''"

definition METRIC_SEPARATOR :: string where
  "METRIC_SEPARATOR = ''|''"

definition METRIC_PATH_NAMESPACES :: string where
  "METRIC_PATH_NAMESPACES = ''Namespaces''"

text \<open>
  Modelled from the spec: the type \<^verbatim>\<open>models.ClusterJobMetrics\<close> and its constructor
  \<^verbatim>\<open>models.NewClusterJobMetrics\<close> are declared outside the given sources. A summary
  bucket holds the running totals the spec lists (job count, active count, success
  count, failed count, cumulative duration), each an \<^verbatim>\<open>int64\<close> as \<^verbatim>\<open>summarize\<close> and
  \<^verbatim>\<open>addMetricToList\<close> use them, next to its identity and path fields; a new bucket
  has all counts zero. The field \<^verbatim>\<open>Duration\<close> of the bucket is \<open>DurationTotal\<close> here,
  and the constant \<^verbatim>\<open>m.ALL\<close> is \<open>ALL_key\<close>.
\<close>

record ClusterJobMetrics =
  Metrics_Namespace :: string
  Metrics_Path :: string
  JobCount :: "64 word"
  ActiveCount :: "64 word"
  SuccessCount :: "64 word"
  FailedCount :: "64 word"
  DurationTotal :: "64 word"

definition NewClusterJobMetrics :: "AppDBag \<Rightarrow> string \<Rightarrow> string \<Rightarrow> ClusterJobMetrics" where
  "NewClusterJobMetrics bag ns node =
     \<lparr>Metrics_Namespace = ns,
      Metrics_Path = METRIC_PATH_NAMESPACES @ METRIC_SEPARATOR @ node @ METRIC_SEPARATOR,
      JobCount = 0, ActiveCount = 0, SuccessCount = 0, FailedCount = 0,
      DurationTotal = 0\<rparr>"

type_synonym SummaryMap = "string \<rightharpoonup> ClusterJobMetrics"

text \<open>
  An object as the informer's store and its event handlers hold it, an
  \<^verbatim>\<open>interface{}\<close>: a \<^verbatim>\<open>*v1.Node\<close> (of which the handlers read the name), a
  \<^verbatim>\<open>*batch/v1.Job\<close>, or a value of any other dynamic type.
\<close>

datatype k8sObject = NodeObject string | JobObject Job | OtherObject

subsection \<open>processObject\<close>

definition serializeMap :: "(string \<times> string) list \<Rightarrow> string" where
  "serializeMap kvs = concat (map (\<lambda>(k, v). k @ '':'' @ v @ '';'') kvs)"

definition processObject :: "'f GoRuntime \<Rightarrow> AppDBag \<Rightarrow> Job \<Rightarrow> panic + ('f::zero) JobSchema" where
  "processObject rt bag j =
     (let jobObject = NewJobObj;
          jobObject = (if Meta_ClusterName j \<noteq> []
                       then jobObject\<lparr>ClusterName := Meta_ClusterName j\<rparr>
                       else jobObject\<lparr>ClusterName := AppName bag\<rparr>);
          jobObject = jobObject\<lparr>Name := Meta_Name j\<rparr>;
          jobObject = jobObject\<lparr>Namespace := Meta_Namespace j\<rparr>;
          jobObject = jobObject\<lparr>Labels := serializeMap (Meta_Labels j)\<rparr>;
          jobObject = jobObject\<lparr>Annotations := serializeMap (Meta_Annotations j)\<rparr>;
          jobObject = jobObject\<lparr>Active := Status_Active j\<rparr>;
          jobObject = jobObject\<lparr>Success := Status_Succeeded j\<rparr>;
          jobObject = jobObject\<lparr>Failed := Status_Failed j\<rparr>
      in case Status_StartTime j of
           None \<Rightarrow> Inl NilDereference
         | Some st \<Rightarrow>
             (let jobObject = jobObject\<lparr>StartTime := st\<rparr>;
                  jobObject =
                    (case Status_CompletionTime j of
                       Some ct \<Rightarrow>
                         (let jobObject = jobObject\<lparr>EndTime := ct\<rparr>
                          in jobObject\<lparr>Duration :=
                               Seconds rt (time_Sub (EndTime jobObject) (StartTime jobObject))\<rparr>)
                     | None \<Rightarrow>
                         jobObject\<lparr>Duration :=
                           Seconds rt (time_Since rt (StartTime jobObject))\<rparr>)
              in case Spec_ActiveDeadlineSeconds j of
                   None \<Rightarrow> Inl NilDereference
                 | Some ads \<Rightarrow>
                     (case Spec_Completions j of
                        None \<Rightarrow> Inl NilDereference
                      | Some cpl \<Rightarrow>
                          (case Spec_BackoffLimit j of
                             None \<Rightarrow> Inl NilDereference
                           | Some bol \<Rightarrow>
                               (case Spec_Parallelism j of
                                  None \<Rightarrow> Inl NilDereference
                                | Some par \<Rightarrow>
                                    Inr (jobObject\<lparr>ActiveDeadlineSeconds := ads,
                                           Completions := cpl, BackoffLimit := bol,
                                           Parallelism := par\<rparr>))))))"

subsection \<open>summarize\<close>

text \<open>
  \<^verbatim>\<open>SummaryMap\<close> is a \<^verbatim>\<open>map[string]m.ClusterJobMetrics\<close>: its values are structs, so
  \<^verbatim>\<open>summary, ok := pw.SummaryMap[m.ALL]\<close> copies the bucket into the local variable
  \<^verbatim>\<open>summary\<close>. The map is assigned only where a bucket is missing; the increments
  that follow change the two local copies. The function returns the map together with
  the final values of the locals \<^verbatim>\<open>summary\<close> and \<^verbatim>\<open>summaryNS\<close>, which the Go function
  drops when it returns.
\<close>

definition summarize ::
  "'f GoRuntime \<Rightarrow> AppDBag \<Rightarrow> 'f JobSchema \<Rightarrow> SummaryMap
     \<Rightarrow> SummaryMap \<times> ClusterJobMetrics \<times> ClusterJobMetrics" where
  "summarize rt bag jobObject sm =
     (let (summary, sm) =
            (case sm ALL_key of
               Some s \<Rightarrow> (s, sm)
             | None \<Rightarrow> (let s = NewClusterJobMetrics bag ALL_key ALL_key in (s, sm(ALL_key \<mapsto> s))));
          (summaryNS, sm) =
            (case sm (Namespace jobObject) of
               Some s \<Rightarrow> (s, sm)
             | None \<Rightarrow> (let s = NewClusterJobMetrics bag ALL_key (Namespace jobObject)
                        in (s, sm(Namespace jobObject \<mapsto> s))));
          summary = summary\<lparr>JobCount := JobCount summary + 1\<rparr>;
          summaryNS = summaryNS\<lparr>JobCount := JobCount summaryNS + 1\<rparr>;
          summary = summary\<lparr>ActiveCount := ActiveCount summary + scast (Active jobObject)\<rparr>;
          summary = summary\<lparr>FailedCount := FailedCount summary + scast (Failed jobObject)\<rparr>;
          summary = summary\<lparr>SuccessCount := SuccessCount summary + scast (Success jobObject)\<rparr>;
          summary = summary\<lparr>DurationTotal :=
                      DurationTotal summary + int64_of_float rt (Duration jobObject)\<rparr>;
          summaryNS = summaryNS\<lparr>ActiveCount := ActiveCount summaryNS + scast (Active jobObject)\<rparr>;
          summaryNS = summaryNS\<lparr>FailedCount := FailedCount summaryNS + scast (Failed jobObject)\<rparr>;
          summaryNS = summaryNS\<lparr>SuccessCount := SuccessCount summaryNS + scast (Success jobObject)\<rparr>;
          summaryNS = summaryNS\<lparr>DurationTotal :=
                        DurationTotal summaryNS + int64_of_float rt (Duration jobObject)\<rparr>
      in (sm, summary, summaryNS))"

subsection \<open>The worker and the aggregation pass\<close>

text \<open>
  The informer, as far as the worker uses it: the objects of its store, in the order
  \<^verbatim>\<open>List\<close> returns them, and whether the first listing has completed. The worker's
  field is \<open>None\<close> while it holds no informer (a \<^verbatim>\<open>nil\<close> interface value).
\<close>

record SharedIndexInformer =
  Store :: "k8sObject list"
  Synced :: bool

text \<open>
  The rate-limited work queue, as far as the worker uses it: the items waiting, the
  items handed out by \<^verbatim>\<open>Get\<close> and not yet \<^verbatim>\<open>Done\<close>, and whether \<^verbatim>\<open>ShutDown\<close> was
  called.
\<close>

record 'a WorkQueue =
  queue :: "'a list"
  processing :: "'a list"
  shuttingDown :: bool

record 'f JobsWorker =
  informer :: "SharedIndexInformer option"
  Bag :: AppDBag
  SummaryMap :: SummaryMap
  WQ :: "'f JobSchema WorkQueue"

text \<open>
  The loop of \<^verbatim>\<open>buildAppDMetrics\<close> over the store's objects: each object is asserted
  to be a job, turned into a record and folded into the summaries.
\<close>

fun summarizeAll ::
  "('f::zero) GoRuntime \<Rightarrow> AppDBag \<Rightarrow> k8sObject list \<Rightarrow> SummaryMap
     \<Rightarrow> panic + SummaryMap" where
  "summarizeAll rt bag [] sm = Inr sm"
| "summarizeAll rt bag (obj # objs) sm =
     (case obj of
        JobObject jobObject \<Rightarrow>
          (case processObject rt bag jobObject of
             Inl p \<Rightarrow> Inl p
           | Inr jobSchema \<Rightarrow>
               summarizeAll rt bag objs (fst (summarize rt bag jobSchema sm)))
      | _ \<Rightarrow> Inl TypeAssertion)"

text \<open>
  One aggregation pass, up to the summaries it leaves in the worker: the map is
  replaced by an empty one, then filled from the store. (The conversion of the buckets
  to a metric list and its posting follow; they read the map and do not change it.)
\<close>

definition buildAppDMetrics ::
  "'f GoRuntime \<Rightarrow> ('f::zero) JobsWorker \<Rightarrow> panic + 'f JobsWorker" where
  "buildAppDMetrics rt pw =
     (let pw = pw\<lparr>SummaryMap := Map.empty\<rparr>
      in case informer pw of
           None \<Rightarrow> Inl NilDereference
         | Some i \<Rightarrow>
             (case summarizeAll rt (Bag pw) (Store i) (SummaryMap pw) of
                Inl p \<Rightarrow> Inl p
              | Inr sm \<Rightarrow> Inr (pw\<lparr>SummaryMap := sm\<rparr>)))"

definition HasSynced :: "'f JobsWorker \<Rightarrow> panic + bool" where
  "HasSynced pw =
     (case informer pw of
        None \<Rightarrow> Inl NilDereference
      | Some i \<Rightarrow> Inr (Synced i))"

subsection \<open>Events\<close>

text \<open>
  The lines the worker prints, by the statement that prints them, and the calls it
  makes on the controller client (\<^verbatim>\<open>StartBT\<close>, \<^verbatim>\<open>StopBT\<close>; the handle is named by
  the transaction it stands for) and on the REST client (\<^verbatim>\<open>SchemaExists\<close>,
  \<^verbatim>\<open>CreateSchema\<close>, \<^verbatim>\<open>PostAppDEvents\<close>).
\<close>

datatype logLine =
    FlushingTheQueue int
  | QueueShutDown
  | SendingRecords nat
  | SchemaDefLine string
  | CreatingSchema string
  | SchemaCreated string
  | SchemaExistsLine string
  | AboutToPost
  | SerializeProblem
  | BatchClientIssue string
  | AddedJob string
  | DeletedJob string
  | UpdatedJob string

datatype event =
    StartBT string
  | StopBT string
  | Print logLine
  | SchemaExists string
  | CreateSchema string string
  | PostAppDEvents string string

subsection \<open>Construction of the worker\<close>

text \<open>
  \<^verbatim>\<open>initJobInformer\<close> takes the result of \<^verbatim>\<open>batch.NewForConfig(nw.K8sConfig)\<close>: an
  error (\<open>Inl\<close>) or a client. It returns the worker, whose field it sets on success,
  the informer it returns to its caller, and what it printed.
\<close>

definition initJobInformer ::
  "string + 'c \<Rightarrow> 'f JobsWorker
     \<Rightarrow> 'f JobsWorker \<times> SharedIndexInformer option \<times> event list" where
  "initJobInformer newForConfig nw =
     (case newForConfig of
        Inl err \<Rightarrow> (nw, None, [Print (BatchClientIssue err)])
      | Inr batchClient \<Rightarrow>
          (let i = \<lparr>Store = [], Synced = False\<rparr>;
               nw = nw\<lparr>informer := Some i\<rparr>
           in (nw, Some i, [])))"

text \<open>
  \<^verbatim>\<open>NewJobsWorker\<close> returns a \<^verbatim>\<open>JobsWorker\<close> and nothing else; the value returned by
  \<^verbatim>\<open>initJobInformer\<close> is not read.
\<close>

definition NewJobsWorker :: "string + 'c \<Rightarrow> AppDBag \<Rightarrow> 'f JobsWorker \<times> event list" where
  "NewJobsWorker newForConfig bag =
     (let queue = \<lparr>queue = [], processing = [], shuttingDown = False\<rparr>;
          pw = \<lparr>informer = None, Bag = bag, SummaryMap = Map.empty, WQ = queue\<rparr>
      in case initJobInformer newForConfig pw of
           (pw, i, printed) \<Rightarrow> (pw, printed))"

subsection \<open>The informer's event handlers\<close>

definition onNewJob :: "k8sObject \<Rightarrow> panic + event list" where
  "onNewJob obj =
     (case obj of
        NodeObject name \<Rightarrow> Inr [Print (AddedJob name)]
      | _ \<Rightarrow> Inl TypeAssertion)"

definition onDeleteJob :: "k8sObject \<Rightarrow> panic + event list" where
  "onDeleteJob obj =
     (case obj of
        NodeObject name \<Rightarrow> Inr [Print (DeletedJob name)]
      | _ \<Rightarrow> Inl TypeAssertion)"

definition onUpdateJob :: "k8sObject \<Rightarrow> k8sObject \<Rightarrow> panic + event list" where
  "onUpdateJob objOld objNew =
     (case objOld of
        NodeObject name \<Rightarrow> Inr [Print (UpdatedJob name)]
      | _ \<Rightarrow> Inl TypeAssertion)"

subsection \<open>The work queue\<close>

text \<open>
  \<^verbatim>\<open>Get\<close> hands out the first waiting item. On an empty queue it returns
  \<^verbatim>\<open>(nil, true)\<close> when the queue is shutting down and blocks otherwise. \<^verbatim>\<open>Done\<close>
  takes the item out of the processing set; \<^verbatim>\<open>Forget\<close> resets the rate limiter's
  count for the item, which is not part of this state.
\<close>

datatype 'a getResult = GetBlocks | GetReturns "'a option" bool "'a WorkQueue"

definition WQ_Len :: "'a WorkQueue \<Rightarrow> int" where
  "WQ_Len q = int (length (queue q))"

definition WQ_Get :: "'a WorkQueue \<Rightarrow> 'a getResult" where
  "WQ_Get q =
     (case queue q of
        [] \<Rightarrow> if shuttingDown q then GetReturns None True q else GetBlocks
      | item # rest \<Rightarrow>
          GetReturns (Some item) False (q\<lparr>queue := rest, processing := item # processing q\<rparr>))"

definition WQ_Done :: "'a \<Rightarrow> 'a WorkQueue \<Rightarrow> 'a WorkQueue" where
  "WQ_Done item q = q\<lparr>processing := removeAll item (processing q)\<rparr>"

definition WQ_Forget :: "'a \<Rightarrow> 'a WorkQueue \<Rightarrow> 'a WorkQueue" where
  "WQ_Forget item q = q"

definition WQ_ShutDown :: "'a WorkQueue \<Rightarrow> 'a WorkQueue" where
  "WQ_ShutDown q = q\<lparr>shuttingDown := True\<rparr>"

subsection \<open>getNextQueueItem\<close>

text \<open>
  The items of the queue are \<^verbatim>\<open>*m.JobSchema\<close> values. The type assertion
  \<^verbatim>\<open>podRecord.(*m.JobSchema)\<close> has a single result, so it panics on the \<^verbatim>\<open>nil\<close>
  interface value that \<^verbatim>\<open>Get\<close> returns with \<^verbatim>\<open>quit\<close>.
\<close>

datatype 'a nextItem = NextBlocks | NextPanics panic | NextReturns 'a bool "'a WorkQueue"

definition getNextQueueItem :: "'f JobSchema WorkQueue \<Rightarrow> 'f JobSchema nextItem" where
  "getNextQueueItem wq =
     (case WQ_Get wq of
        GetBlocks \<Rightarrow> NextBlocks
      | GetReturns podRecord quit wq \<Rightarrow>
          if quit then
            (case podRecord of
               None \<Rightarrow> NextPanics TypeAssertion
             | Some jobRecord \<Rightarrow> NextReturns jobRecord False wq)
          else
            (case podRecord of
               None \<Rightarrow> NextPanics TypeAssertion
             | Some jobRecord \<Rightarrow>
                 NextReturns jobRecord True (WQ_Done jobRecord (WQ_Forget jobRecord wq))))"

subsection \<open>postJobRecords\<close>

text \<open>
  What \<^verbatim>\<open>postJobRecords\<close> takes from outside: the two results of \<^verbatim>\<open>json.Marshal\<close>
  (\<open>None\<close> for an error) and the replies of the REST client, \<^verbatim>\<open>SchemaExists\<close> and
  whether the value \<^verbatim>\<open>CreateSchema\<close> returns is not \<^verbatim>\<open>nil\<close>.
\<close>

record 'f EventsBackend =
  Marshal :: "'f JobSchema list \<Rightarrow> string option"
  MarshalSchemaDef :: "string option"
  SchemaExistsReply :: "string \<Rightarrow> bool"
  CreateSchemaReply :: "string \<Rightarrow> string \<Rightarrow> bool"

definition postJobRecords :: "AppDBag \<Rightarrow> 'f EventsBackend \<Rightarrow> 'f JobSchema list \<Rightarrow> event list" where
  "postJobRecords bag be objList =
     (let data = Marshal be objList;
          schemaDef = MarshalSchemaDef be;
          printed = [Print (SchemaDefLine (case schemaDef of None \<Rightarrow> [] | Some sd \<Rightarrow> sd))]
      in case (data, schemaDef) of
           (Some d, Some sd) \<Rightarrow>
             printed
             @ [SchemaExists (JobSchemaName bag)]
             @ (if SchemaExistsReply be (JobSchemaName bag) = False
                then [Print (CreatingSchema (JobSchemaName bag)),
                      CreateSchema (JobSchemaName bag) sd]
                     @ (if CreateSchemaReply be (JobSchemaName bag) sd
                        then [Print (SchemaCreated (JobSchemaName bag))]
                        else [])
                else [Print (SchemaExistsLine (JobSchemaName bag))])
             @ [Print AboutToPost, PostAppDEvents (JobSchemaName bag) d]
         | _ \<Rightarrow> printed @ [Print SerializeProblem])"

subsection \<open>flushQueue\<close>

datatype outcome = Returned | Panicked panic | Blocked

text \<open>
  The loop \<^verbatim>\<open>for count >= 0\<close> of \<^verbatim>\<open>flushQueue\<close>, from the values of \<^verbatim>\<open>count\<close> and
  \<^verbatim>\<open>objList\<close> at the loop's head. Where the condition fails the function goes on to
  the statement after the loop, the call of \<^verbatim>\<open>StopBT\<close>.
\<close>

function flushLoop ::
  "AppDBag \<Rightarrow> 'f EventsBackend \<Rightarrow> int \<Rightarrow> 'f JobSchema list \<Rightarrow> 'f JobSchema WorkQueue
     \<Rightarrow> outcome \<times> 'f JobSchema WorkQueue \<times> event list" where
  "flushLoop bag be count objList wq =
     (if count \<ge> 0 then
        (case getNextQueueItem wq of
           NextBlocks \<Rightarrow> (Blocked, wq, [])
         | NextPanics p \<Rightarrow> (Panicked p, wq, [])
         | NextReturns jobRecord ok wq' \<Rightarrow>
             (let count' = count - 1;
                  objList' = (if ok then objList @ [jobRecord] else objList);
                  printed = (if ok then [] else [Print QueueShutDown])
              in if count' = 0 \<or> int (length objList') \<ge> EventAPILimit bag
                 then (Returned, wq',
                       printed @ [Print (SendingRecords (length objList'))]
                       @ postJobRecords bag be objList')
                 else (case flushLoop bag be count' objList' wq' of
                         (out, wq'', evs) \<Rightarrow> (out, wq'', printed @ evs))))
      else (Returned, wq, [StopBT ''FlushJobEventsQueue'']))"
  by pat_completeness auto
termination
  by (relation "measure (\<lambda>(bag, be, count, objList, wq). nat (count + 1))") auto

definition flushQueue ::
  "'f EventsBackend \<Rightarrow> 'f JobsWorker \<Rightarrow> outcome \<times> 'f JobsWorker \<times> event list" where
  "flushQueue be pw =
     (let count = WQ_Len (WQ pw);
          evs = [StartBT ''FlushJobEventsQueue'', Print (FlushingTheQueue count)]
      in if count = 0 then (Returned, pw, evs)
         else (case flushLoop (Bag pw) be count [] (WQ pw) of
                 (out, wq, evs') \<Rightarrow> (out, pw\<lparr>WQ := wq\<rparr>, evs @ evs')))"

subsection \<open>Notions used in the statements\<close>

text \<open>
  The pointers that \<^verbatim>\<open>processObject\<close> dereferences without a check: the start time
  and the four optional fields of the job's spec.
\<close>

definition specPresent :: "Job \<Rightarrow> bool" where
  "specPresent j =
     (Status_StartTime j \<noteq> None \<and> Spec_ActiveDeadlineSeconds j \<noteq> None \<and>
      Spec_Completions j \<noteq> None \<and> Spec_BackoffLimit j \<noteq> None \<and>
      Spec_Parallelism j \<noteq> None)"

definition wellFormed :: "k8sObject \<Rightarrow> bool" where
  "wellFormed obj = (case obj of JobObject j \<Rightarrow> specPresent j | _ \<Rightarrow> False)"

fun jobsOf :: "k8sObject list \<Rightarrow> Job list" where
  "jobsOf [] = []"
| "jobsOf (JobObject j # objs) = j # jobsOf objs"
| "jobsOf (obj # objs) = jobsOf objs"

text \<open>The namespaces of a snapshot's jobs, each once: the keys of the namespace buckets.\<close>

definition namespacesOf :: "k8sObject list \<Rightarrow> string list" where
  "namespacesOf objs = remdups (map Meta_Namespace (jobsOf objs))"

text \<open>The sum of one field over the buckets of the given keys.\<close>

definition bucketSum ::
  "(ClusterJobMetrics \<Rightarrow> 64 word) \<Rightarrow> SummaryMap \<Rightarrow> string list \<Rightarrow> 64 word" where
  "bucketSum field sm keys =
     sum_list (map (\<lambda>k. case sm k of None \<Rightarrow> 0 | Some bucket \<Rightarrow> field bucket) keys)"

text \<open>What \<^verbatim>\<open>summarize\<close> does to the map: a bucket is added where the key has none.\<close>

definition addBucket :: "AppDBag \<Rightarrow> string \<Rightarrow> SummaryMap \<Rightarrow> SummaryMap" where
  "addBucket bag k sm =
     (case sm k of
        Some s \<Rightarrow> sm
      | None \<Rightarrow> sm(k \<mapsto> NewClusterJobMetrics bag ALL_key k))"

definition freshBuckets :: "AppDBag \<Rightarrow> SummaryMap \<Rightarrow> bool" where
  "freshBuckets bag sm = (\<forall>k v. sm k = Some v \<longrightarrow> v = NewClusterJobMetrics bag ALL_key k)"

text \<open>
  The number of records one flush takes from the queue, and the queue after \<open>k\<close> items
  were taken by \<^verbatim>\<open>Get\<close> and marked \<^verbatim>\<open>Done\<close>.
\<close>

definition batchSize :: "AppDBag \<Rightarrow> 'a WorkQueue \<Rightarrow> nat" where
  "batchSize bag q = min (length (queue q)) (nat (max (EventAPILimit bag) 1))"

definition dequeue :: "nat \<Rightarrow> 'a WorkQueue \<Rightarrow> 'a WorkQueue" where
  "dequeue k q =
     q\<lparr>queue := drop k (queue q),
       processing := fold removeAll (take k (queue q)) (processing q)\<rparr>"

text \<open>The calls on the REST client among the events, and the posts among them.\<close>

fun isNetworkCall :: "event \<Rightarrow> bool" where
  "isNetworkCall (SchemaExists n) = True"
| "isNetworkCall (CreateSchema n sd) = True"
| "isNetworkCall (PostAppDEvents n d) = True"
| "isNetworkCall e = False"

definition networkCalls :: "event list \<Rightarrow> event list" where
  "networkCalls evs = filter isNetworkCall evs"

fun isPost :: "event \<Rightarrow> bool" where
  "isPost (PostAppDEvents n d) = True"
| "isPost e = False"

fun isStopBT :: "event \<Rightarrow> bool" where
  "isStopBT (StopBT n) = True"
| "isStopBT e = False"

subsection \<open>Concrete inputs\<close>

text \<open>
  A run time whose clock stands at 100 seconds and whose \<open>float64\<close> is replaced by
  whole seconds, a configuration, a backend on which the schema does not exist yet, a
  job and a record.
\<close>

definition exampleRuntime :: "int GoRuntime" where
  "exampleRuntime =
     \<lparr>Now = 100000000000, Seconds = (\<lambda>d. d div 1000000000), int64_of_float = word_of_int\<rparr>"

definition exampleBag :: AppDBag where
  "exampleBag =
     \<lparr>AppName = ''cluster'', TierName = ''agent'', EventAPILimit = 10,
      JobSchemaName = ''jobs''\<rparr>"

definition exampleBackend :: "int EventsBackend" where
  "exampleBackend =
     \<lparr>Marshal = (\<lambda>objList. Some (concat (map Name objList))),
      MarshalSchemaDef = Some ''schema'',
      SchemaExistsReply = (\<lambda>name. False),
      CreateSchemaReply = (\<lambda>name schemaDef. True)\<rparr>"

definition exampleJob :: "string \<Rightarrow> 32 word \<Rightarrow> 32 word \<Rightarrow> 32 word \<Rightarrow> Job" where
  "exampleJob ns active succeeded failed =
     \<lparr>Meta_ClusterName = [], Meta_Name = ''job'', Meta_Namespace = ns,
      Meta_Labels = [], Meta_Annotations = [],
      Status_Active = active, Status_Succeeded = succeeded, Status_Failed = failed,
      Status_StartTime = Some 40000000000, Status_CompletionTime = None,
      Spec_ActiveDeadlineSeconds = Some 600, Spec_Completions = Some 1,
      Spec_BackoffLimit = Some 6, Spec_Parallelism = Some 1\<rparr>"

definition exampleRecord :: "string \<Rightarrow> int JobSchema" where
  "exampleRecord name = NewJobObj\<lparr>Name := name\<rparr>"

definition exampleWorker :: "k8sObject list \<Rightarrow> int JobSchema list \<Rightarrow> int JobsWorker" where
  "exampleWorker store items =
     \<lparr>informer = Some \<lparr>Store = store, Synced = True\<rparr>, Bag = exampleBag,
      SummaryMap = Map.empty,
      WQ = \<lparr>queue = items, processing = [], shuttingDown = False\<rparr>\<rparr>"

text \<open>
  The snapshot of the end-to-end scenario: three jobs in the namespaces a, a, b with
  active counts 1, 0, 2, success counts 0, 1, 0 and failed counts 0, 0, 1.
\<close>

definition scenarioStore :: "k8sObject list" where
  "scenarioStore =
     [JobObject (exampleJob ''a'' 1 0 0), JobObject (exampleJob ''a'' 0 1 0),
      JobObject (exampleJob ''b'' 2 0 1)]"

section \<open>Properties\<close>

subsection \<open>processObject\<close>

lemma processObject_returns:
  "specPresent j \<Longrightarrow> \<exists>r. processObject rt bag j = Inr r"
  by (auto simp: specPresent_def processObject_def Let_def split: option.splits)

lemma processObject_panics:
  "\<not> specPresent j \<Longrightarrow> processObject rt bag j = Inl NilDereference"
  by (auto simp: specPresent_def processObject_def Let_def split: option.splits)

lemma processObject_Namespace:
  "processObject rt bag j = Inr r \<Longrightarrow> Namespace r = Meta_Namespace j"
  by (auto simp: processObject_def Let_def split: option.splits)

lemma processObject_StartTime:
  "processObject rt bag j = Inr r \<Longrightarrow> Status_StartTime j = Some (StartTime r)"
  by (auto simp: processObject_def Let_def split: option.splits)

lemma processObject_Duration_eq:
  "processObject rt bag j = Inr r \<Longrightarrow> Status_StartTime j = Some st \<Longrightarrow>
   Duration r =
     Seconds rt (time_Sub (case Status_CompletionTime j of None \<Rightarrow> Now rt | Some ct \<Rightarrow> ct) st)"
  by (auto simp: processObject_def Let_def time_Since_def split: option.splits)

lemma time_Sub_exact:
  "minDuration \<le> t - u \<Longrightarrow> t - u \<le> maxDuration \<Longrightarrow> time_Sub t u = t - u"
  by (simp add: time_Sub_def Let_def)

lemma time_Sub_above: "maxDuration < t - u \<Longrightarrow> time_Sub t u = maxDuration"
  by (simp add: time_Sub_def Let_def minDuration_def maxDuration_def)

lemma time_Sub_below: "t - u < minDuration \<Longrightarrow> time_Sub t u = minDuration"
  by (simp add: time_Sub_def Let_def)

text \<open>
  C5, as amended: for every job that \<^verbatim>\<open>processObject\<close> turns into a record, the
  record's duration is \<^verbatim>\<open>Seconds\<close> of what \<^verbatim>\<open>Time.Sub\<close> returns for the time from the
  start to now when the completion time is \<^verbatim>\<open>nil\<close>, and from the start to the
  completion time otherwise. That is the exact difference of the two instants wherever
  the difference fits a \<^verbatim>\<open>Duration\<close>, the largest \<^verbatim>\<open>Duration\<close> where the
  difference lies above the range, and the smallest where it lies below.
\<close>

theorem processObject_Duration:
  assumes "specPresent j" and "Status_StartTime j = Some st"
  shows "\<exists>r. processObject rt bag j = Inr r \<and>
           (Status_CompletionTime j = None \<longrightarrow>
              Duration r = Seconds rt (time_Sub (Now rt) st) \<and>
              (minDuration \<le> Now rt - st \<and> Now rt - st \<le> maxDuration \<longrightarrow>
                 Duration r = Seconds rt (Now rt - st)) \<and>
              (maxDuration < Now rt - st \<longrightarrow> Duration r = Seconds rt maxDuration) \<and>
              (Now rt - st < minDuration \<longrightarrow> Duration r = Seconds rt minDuration)) \<and>
           (\<forall>ct. Status_CompletionTime j = Some ct \<longrightarrow>
              Duration r = Seconds rt (time_Sub ct st) \<and>
              (minDuration \<le> ct - st \<and> ct - st \<le> maxDuration \<longrightarrow>
                 Duration r = Seconds rt (ct - st)) \<and>
              (maxDuration < ct - st \<longrightarrow> Duration r = Seconds rt maxDuration) \<and>
              (ct - st < minDuration \<longrightarrow> Duration r = Seconds rt minDuration))"
proof -
  from assms(1) obtain r where r: "processObject rt bag j = Inr r"
    using processObject_returns by blast
  note d = processObject_Duration_eq [OF r assms(2)]
  have "Status_CompletionTime j = None \<Longrightarrow> Duration r = Seconds rt (time_Sub (Now rt) st)"
    using d by simp
  moreover have "Status_CompletionTime j = Some ct \<Longrightarrow> Duration r = Seconds rt (time_Sub ct st)"
    for ct
    using d by simp
  ultimately show ?thesis
    using r by (auto simp: time_Sub_exact time_Sub_above time_Sub_below)
qed

theorem processObject_Duration_witness:
  "specPresent (exampleJob ''a'' 1 0 0) \<and>
   Status_StartTime (exampleJob ''a'' 1 0 0) = Some 40000000000 \<and>
   Status_CompletionTime (exampleJob ''a'' 1 0 0) = None \<and>
   (\<exists>r. processObject exampleRuntime exampleBag (exampleJob ''a'' 1 0 0) = Inr r \<and>
        Duration r = 60) \<and>
   (\<exists>r. processObject exampleRuntime exampleBag
          ((exampleJob ''a'' 1 0 0)\<lparr>Status_CompletionTime := Some 47000000000\<rparr>) = Inr r \<and>
        Duration r = 7) \<and>
   (\<exists>r. processObject exampleRuntime exampleBag
          ((exampleJob ''a'' 1 0 0)\<lparr>Status_StartTime := Some zeroTime,
             Status_CompletionTime := Some 40000000000\<rparr>) = Inr r \<and>
        Duration r = 9223372036)"
proof -
  let ?j = "exampleJob ''a'' 1 0 0"
  let ?j' = "?j\<lparr>Status_CompletionTime := Some 47000000000\<rparr>"
  let ?z = "?j\<lparr>Status_StartTime := Some zeroTime, Status_CompletionTime := Some 40000000000\<rparr>"
  have p: "specPresent ?j" "specPresent ?j'" "specPresent ?z"
    by (simp_all add: specPresent_def exampleJob_def)
  have s: "Status_StartTime ?j = Some 40000000000" "Status_StartTime ?j' = Some 40000000000"
    "Status_StartTime ?z = Some zeroTime"
    by (simp_all add: exampleJob_def)
  have c: "Status_CompletionTime ?j = None" "Status_CompletionTime ?j' = Some 47000000000"
    "Status_CompletionTime ?z = Some 40000000000"
    by (simp_all add: exampleJob_def)
  have t: "time_Sub (Now exampleRuntime) 40000000000 = 60000000000"
    "time_Sub 47000000000 40000000000 = 7000000000"
    by (simp_all add: time_Sub_def exampleRuntime_def minDuration_def maxDuration_def)
  have n: "Seconds exampleRuntime 60000000000 = 60" "Seconds exampleRuntime 7000000000 = 7"
    "Seconds exampleRuntime maxDuration = 9223372036"
    by (simp_all add: exampleRuntime_def maxDuration_def)
  have above: "maxDuration < 40000000000 - zeroTime"
    by (simp add: maxDuration_def zeroTime_def)
  from processObject_Duration [OF p(1) s(1), of exampleRuntime exampleBag]
  have "\<exists>r. processObject exampleRuntime exampleBag ?j = Inr r \<and> Duration r = 60"
    using c(1) t(1) n(1) by auto
  moreover from processObject_Duration [OF p(2) s(2), of exampleRuntime exampleBag]
  have "\<exists>r. processObject exampleRuntime exampleBag ?j' = Inr r \<and> Duration r = 7"
    using c(2) t(2) n(2) by auto
  moreover from processObject_Duration [OF p(3) s(3), of exampleRuntime exampleBag]
  have "\<exists>r. processObject exampleRuntime exampleBag ?z = Inr r \<and> Duration r = 9223372036"
    using c(3) above n(3) by auto
  ultimately show ?thesis
    using p(1) s(1) c(1) by blast
qed

text \<open>
  A job whose start time is the zero \<^verbatim>\<open>time.Time\<close> (1 January of the year 1) and that
  completed 40 seconds after the Unix epoch: the two instants lie 62135596840 seconds
  apart, and the record's duration is the largest \<^verbatim>\<open>Duration\<close>, 9223372036 whole
  seconds.
\<close>

theorem processObject_Duration_saturates:
  "map_sum id Duration
     (processObject exampleRuntime exampleBag
        ((exampleJob ''a'' 1 0 0)\<lparr>Status_StartTime := Some zeroTime,
           Status_CompletionTime := Some 40000000000\<rparr>))
     = Inr 9223372036 \<and>
   Seconds exampleRuntime (40000000000 - zeroTime) = 62135596840"
  by (simp add: processObject_def Let_def exampleJob_def exampleRuntime_def time_Sub_def
        minDuration_def maxDuration_def zeroTime_def NewJobObj_def)

subsection \<open>The aggregation pass\<close>

lemma summarize_map:
  "fst (summarize rt bag r sm) = addBucket bag (Namespace r) (addBucket bag ALL_key sm)"
  by (simp add: summarize_def addBucket_def Let_def split: option.splits prod.splits)

lemma addBucket_fresh: "freshBuckets bag sm \<Longrightarrow> freshBuckets bag (addBucket bag k sm)"
  by (auto simp: freshBuckets_def addBucket_def split: option.splits if_splits)

lemma addBucket_dom: "dom (addBucket bag k sm) = insert k (dom sm)"
  by (auto simp: addBucket_def split: option.splits if_splits)

lemma summarizeAll_returns:
  "list_all wellFormed objs \<Longrightarrow> \<exists>sm'. summarizeAll rt bag objs sm = Inr sm'"
proof (induction objs arbitrary: sm)
  case Nil
  then show ?case by simp
next
  case (Cons obj objs)
  then obtain j where j: "obj = JobObject j" "specPresent j"
    by (auto simp: wellFormed_def split: k8sObject.splits)
  then obtain r where "processObject rt bag j = Inr r"
    using processObject_returns by blast
  with Cons j show ?case by simp
qed

lemma summarizeAll_panics:
  "JobObject j \<in> set objs \<Longrightarrow> \<not> specPresent j \<Longrightarrow> \<exists>p. summarizeAll rt bag objs sm = Inl p"
proof (induction objs arbitrary: sm)
  case Nil
  then show ?case by simp
next
  case (Cons obj objs)
  show ?case
  proof (cases "obj = JobObject j")
    case True
    with Cons.prems show ?thesis
      by (simp add: processObject_panics)
  next
    case False
    with Cons.prems have "JobObject j \<in> set objs" by simp
    with Cons show ?thesis
      by (auto split: k8sObject.splits sum.splits)
  qed
qed

lemma summarizeAll_fresh:
  "summarizeAll rt bag objs sm = Inr sm' \<Longrightarrow> freshBuckets bag sm \<Longrightarrow> freshBuckets bag sm'"
proof (induction objs arbitrary: sm)
  case Nil
  then show ?case by simp
next
  case (Cons obj objs)
  then show ?case
    by (auto simp: summarize_map addBucket_fresh split: k8sObject.splits sum.splits)
qed

lemma summarizeAll_dom:
  "summarizeAll rt bag objs sm = Inr sm' \<Longrightarrow>
   dom sm' = dom sm \<union> (if objs = [] then {} else {ALL_key})
             \<union> set (map Meta_Namespace (jobsOf objs))"
proof (induction objs arbitrary: sm)
  case Nil
  then show ?case by simp
next
  case (Cons obj objs)
  then show ?case
    by (auto simp: summarize_map addBucket_dom processObject_Namespace
             split: k8sObject.splits sum.splits if_splits)
qed

lemma bucketSum_fresh:
  assumes "freshBuckets bag sm" and "\<And>k. field (NewClusterJobMetrics bag ALL_key k) = 0"
  shows "bucketSum field sm keys = 0"
proof -
  have "(case sm k of None \<Rightarrow> 0 | Some bucket \<Rightarrow> field bucket) = 0" for k
    using assms by (auto simp: freshBuckets_def split: option.splits)
  then show ?thesis
    by (simp add: bucketSum_def)
qed

text \<open>
  What one pass leaves in the worker, for a store of jobs whose dereferenced pointers
  are all present: a bucket for the key \<^verbatim>\<open>m.ALL\<close> (unless the store is empty) and one
  for each namespace, every one as its constructor made it.
\<close>

lemma buildAppDMetrics_result:
  assumes "informer pw = Some i" and "list_all wellFormed (Store i)"
  shows "\<exists>pw'. buildAppDMetrics rt pw = Inr pw' \<and>
           freshBuckets (Bag pw) (SummaryMap pw') \<and>
           dom (SummaryMap pw') =
             (if Store i = [] then {} else insert ALL_key (set (namespacesOf (Store i))))"
proof -
  from assms(2) obtain sm where sm: "summarizeAll rt (Bag pw) (Store i) Map.empty = Inr sm"
    using summarizeAll_returns by blast
  have "freshBuckets (Bag pw) Map.empty"
    by (simp add: freshBuckets_def)
  with sm have f: "freshBuckets (Bag pw) sm"
    by (rule summarizeAll_fresh)
  from summarizeAll_dom [OF sm]
  have d: "dom sm = (if Store i = [] then {} else insert ALL_key (set (namespacesOf (Store i))))"
    by (simp add: namespacesOf_def)
  have "buildAppDMetrics rt pw = Inr (pw\<lparr>SummaryMap := sm\<rparr>)"
    using assms(1) sm by (simp add: buildAppDMetrics_def)
  with f d show ?thesis by simp
qed

text \<open>
  C9: \<^verbatim>\<open>processObject\<close> returns a record exactly for the jobs whose start time and
  four optional spec fields are all present, and panics on a \<^verbatim>\<open>nil\<close> dereference for
  every other job. The completion time is not among these: removing it changes
  nothing. A pass over a store that holds a job with one of the pointers absent
  panics.
\<close>

theorem processObject_panic_free_iff:
  "(\<exists>r. processObject rt bag j = Inr r) = specPresent j \<and>
   (processObject rt bag j = Inl NilDereference) = (\<not> specPresent j) \<and>
   specPresent (j\<lparr>Status_CompletionTime := None\<rparr>) = specPresent j \<and>
   (informer pw = Some i \<and> JobObject j \<in> set (Store i) \<and> \<not> specPresent j \<longrightarrow>
      (\<exists>p. buildAppDMetrics rt pw = Inl p))"
proof -
  have "(\<exists>r. processObject rt bag j = Inr r) = specPresent j"
  proof (cases "specPresent j")
    case True
    then obtain r where "processObject rt bag j = Inr r"
      using processObject_returns by blast
    with True show ?thesis by blast
  next
    case False
    then show ?thesis by (simp add: processObject_panics)
  qed
  moreover have "(processObject rt bag j = Inl NilDereference) = (\<not> specPresent j)"
  proof (cases "specPresent j")
    case True
    then obtain r where "processObject rt bag j = Inr r"
      using processObject_returns by blast
    with True show ?thesis by simp
  next
    case False
    then show ?thesis by (simp add: processObject_panics)
  qed
  moreover have "specPresent (j\<lparr>Status_CompletionTime := None\<rparr>) = specPresent j"
    by (simp add: specPresent_def)
  moreover have "\<exists>p. buildAppDMetrics rt pw = Inl p"
    if "informer pw = Some i" "JobObject j \<in> set (Store i)" "\<not> specPresent j"
  proof -
    from that(2,3) obtain p where "summarizeAll rt (Bag pw) (Store i) Map.empty = Inl p"
      using summarizeAll_panics by blast
    with that(1) show ?thesis
      by (simp add: buildAppDMetrics_def)
  qed
  ultimately show ?thesis by blast
qed

theorem processObject_panic_free_iff_witness:
  "\<not> specPresent ((exampleJob ''a'' 1 0 0)\<lparr>Spec_ActiveDeadlineSeconds := None\<rparr>) \<and>
   processObject exampleRuntime exampleBag
     ((exampleJob ''a'' 1 0 0)\<lparr>Spec_ActiveDeadlineSeconds := None\<rparr>) = Inl NilDereference \<and>
   (\<exists>p. buildAppDMetrics exampleRuntime
          (exampleWorker
             [JobObject (exampleJob ''b'' 2 0 1),
              JobObject ((exampleJob ''a'' 1 0 0)\<lparr>Spec_ActiveDeadlineSeconds := None\<rparr>)] [])
        = Inl p)"
proof -
  let ?j = "(exampleJob ''a'' 1 0 0)\<lparr>Spec_ActiveDeadlineSeconds := None\<rparr>"
  let ?store = "[JobObject (exampleJob ''b'' 2 0 1), JobObject ?j]"
  let ?i = "\<lparr>Store = ?store, Synced = True\<rparr>"
  have a: "\<not> specPresent ?j"
    by (simp add: specPresent_def exampleJob_def)
  have b: "informer (exampleWorker ?store []) = Some ?i"
    by (simp add: exampleWorker_def)
  have c: "JobObject ?j \<in> set (Store ?i)"
    by simp
  from processObject_panic_free_iff [of exampleRuntime exampleBag ?j "exampleWorker ?store []" ?i]
  show ?thesis
    using a b c by blast
qed

text \<open>
  C1: the pass over the scenario's three jobs completes, and leaves the three buckets
  (global, a, b) as their constructor made them: every count is zero. The increments
  of \<^verbatim>\<open>summarize\<close> go to copies of the buckets and are not written back to the map.
\<close>

theorem buildAppDMetrics_scenario:
  "\<exists>pw'. buildAppDMetrics rt (pw\<lparr>informer := Some \<lparr>Store = scenarioStore, Synced = True\<rparr>\<rparr>)
           = Inr pw' \<and>
     dom (SummaryMap pw') = {ALL_key, ''a'', ''b''} \<and>
     SummaryMap pw' ALL_key = Some (NewClusterJobMetrics (Bag pw) ALL_key ALL_key) \<and>
     SummaryMap pw' ''a'' = Some (NewClusterJobMetrics (Bag pw) ALL_key ''a'') \<and>
     SummaryMap pw' ''b'' = Some (NewClusterJobMetrics (Bag pw) ALL_key ''b'') \<and>
     map_option JobCount (SummaryMap pw' ALL_key) = Some 0 \<and>
     map_option ActiveCount (SummaryMap pw' ALL_key) = Some 0 \<and>
     map_option SuccessCount (SummaryMap pw' ALL_key) = Some 0 \<and>
     map_option FailedCount (SummaryMap pw' ALL_key) = Some 0 \<and>
     map_option JobCount (SummaryMap pw' ''a'') = Some 0 \<and>
     map_option ActiveCount (SummaryMap pw' ''a'') = Some 0 \<and>
     map_option SuccessCount (SummaryMap pw' ''a'') = Some 0 \<and>
     map_option JobCount (SummaryMap pw' ''b'') = Some 0 \<and>
     map_option ActiveCount (SummaryMap pw' ''b'') = Some 0 \<and>
     map_option FailedCount (SummaryMap pw' ''b'') = Some 0"
proof -
  let ?i = "\<lparr>Store = scenarioStore, Synced = True\<rparr>"
  let ?pw = "pw\<lparr>informer := Some ?i\<rparr>"
  have w: "list_all wellFormed (Store ?i)"
    by (simp add: scenarioStore_def wellFormed_def specPresent_def exampleJob_def)
  have n: "namespacesOf scenarioStore = [''a'', ''b'']" "scenarioStore \<noteq> []"
    by (simp_all add: scenarioStore_def namespacesOf_def exampleJob_def)
  from buildAppDMetrics_result [of ?pw ?i rt, OF _ w]
  obtain pw' where r: "buildAppDMetrics rt ?pw = Inr pw'"
    and f: "freshBuckets (Bag pw) (SummaryMap pw')"
    and d: "dom (SummaryMap pw') = {ALL_key, ''a'', ''b''}"
    by (auto simp: n)
  have "SummaryMap pw' k = Some (NewClusterJobMetrics (Bag pw) ALL_key k)"
    if "k \<in> {ALL_key, ''a'', ''b''}" for k
  proof -
    from that d obtain v where "SummaryMap pw' k = Some v" by blast
    with f show ?thesis by (simp add: freshBuckets_def)
  qed
  then have "SummaryMap pw' ALL_key = Some (NewClusterJobMetrics (Bag pw) ALL_key ALL_key)"
    "SummaryMap pw' ''a'' = Some (NewClusterJobMetrics (Bag pw) ALL_key ''a'')"
    "SummaryMap pw' ''b'' = Some (NewClusterJobMetrics (Bag pw) ALL_key ''b'')"
    by simp_all
  with r d show ?thesis
    by (simp add: NewClusterJobMetrics_def)
qed

text \<open>
  C2, as amended: after every aggregation pass over a snapshot of jobs whose
  dereferenced pointers are present, the sum of each of the fields JobCount,
  ActiveCount, SuccessCount, FailedCount and Duration over the namespace buckets
  equals the global bucket's value; the global bucket and one bucket per namespace are
  present when the snapshot is not empty. For the empty snapshot the pass creates no
  bucket at all: the map is empty.
\<close>

theorem buildAppDMetrics_bucket_sums:
  assumes "informer pw = Some i" and "list_all wellFormed (Store i)"
  shows "\<exists>pw'. buildAppDMetrics rt pw = Inr pw' \<and>
           (if Store i = [] then SummaryMap pw' = Map.empty
            else \<exists>g. SummaryMap pw' ALL_key = Some g \<and>
                   dom (SummaryMap pw') = insert ALL_key (set (namespacesOf (Store i))) \<and>
                   bucketSum JobCount (SummaryMap pw') (namespacesOf (Store i)) = JobCount g \<and>
                   bucketSum ActiveCount (SummaryMap pw') (namespacesOf (Store i))
                     = ActiveCount g \<and>
                   bucketSum SuccessCount (SummaryMap pw') (namespacesOf (Store i))
                     = SuccessCount g \<and>
                   bucketSum FailedCount (SummaryMap pw') (namespacesOf (Store i))
                     = FailedCount g \<and>
                   bucketSum DurationTotal (SummaryMap pw') (namespacesOf (Store i))
                     = DurationTotal g)"
proof -
  from buildAppDMetrics_result [OF assms, of rt]
  obtain pw' where r: "buildAppDMetrics rt pw = Inr pw'"
    and f: "freshBuckets (Bag pw) (SummaryMap pw')"
    and d: "dom (SummaryMap pw') =
             (if Store i = [] then {} else insert ALL_key (set (namespacesOf (Store i))))"
    by blast
  show ?thesis
  proof (cases "Store i = []")
    case True
    with d have "SummaryMap pw' = Map.empty" by simp
    with r True show ?thesis by simp
  next
    case False
    with d obtain g where g: "SummaryMap pw' ALL_key = Some g" by auto
    with f have g0: "g = NewClusterJobMetrics (Bag pw) ALL_key ALL_key"
      by (simp add: freshBuckets_def)
    have "bucketSum JobCount (SummaryMap pw') keys = JobCount g"
      "bucketSum ActiveCount (SummaryMap pw') keys = ActiveCount g"
      "bucketSum SuccessCount (SummaryMap pw') keys = SuccessCount g"
      "bucketSum FailedCount (SummaryMap pw') keys = FailedCount g"
      "bucketSum DurationTotal (SummaryMap pw') keys = DurationTotal g" for keys
      by (simp_all add: bucketSum_fresh [OF f] g0 NewClusterJobMetrics_def)
    with r g d False show ?thesis by simp
  qed
qed

theorem buildAppDMetrics_bucket_sums_witness:
  "\<exists>pw'. buildAppDMetrics exampleRuntime (exampleWorker scenarioStore []) = Inr pw' \<and>
     (\<exists>g. SummaryMap pw' ALL_key = Some g \<and>
          dom (SummaryMap pw') = {ALL_key, ''a'', ''b''} \<and>
          bucketSum JobCount (SummaryMap pw') [''a'', ''b''] = JobCount g \<and>
          bucketSum ActiveCount (SummaryMap pw') [''a'', ''b''] = ActiveCount g \<and>
          bucketSum SuccessCount (SummaryMap pw') [''a'', ''b''] = SuccessCount g \<and>
          bucketSum FailedCount (SummaryMap pw') [''a'', ''b''] = FailedCount g \<and>
          bucketSum DurationTotal (SummaryMap pw') [''a'', ''b''] = DurationTotal g)"
proof -
  let ?i = "\<lparr>Store = scenarioStore, Synced = True\<rparr>"
  have h1: "informer (exampleWorker scenarioStore []) = Some ?i"
    by (simp add: exampleWorker_def)
  have h2: "list_all wellFormed (Store ?i)"
    by (simp add: scenarioStore_def wellFormed_def specPresent_def exampleJob_def)
  have n: "namespacesOf scenarioStore = [''a'', ''b'']" "scenarioStore \<noteq> []"
    by (simp_all add: scenarioStore_def namespacesOf_def exampleJob_def)
  from buildAppDMetrics_bucket_sums [OF h1 h2, of exampleRuntime]
  show ?thesis
    by (simp add: n)
qed

text \<open>
  The empty snapshot: the pass returns the worker with an empty map, which has neither
  a global bucket nor one for the namespace \<^verbatim>\<open>default\<close>.
\<close>

theorem buildAppDMetrics_empty_snapshot:
  "buildAppDMetrics exampleRuntime (exampleWorker [] []) = Inr (exampleWorker [] []) \<and>
   SummaryMap (exampleWorker [] []) = Map.empty \<and>
   SummaryMap (exampleWorker [] []) ALL_key = None \<and>
   SummaryMap (exampleWorker [] []) ''default'' = None"
  by (simp add: buildAppDMetrics_def exampleWorker_def)

subsection \<open>postJobRecords\<close>

lemma postJobRecords_calls:
  "networkCalls (postJobRecords bag be objList) =
     (case (Marshal be objList, MarshalSchemaDef be) of
        (Some d, Some sd) \<Rightarrow>
          (if SchemaExistsReply be (JobSchemaName bag)
           then [SchemaExists (JobSchemaName bag), PostAppDEvents (JobSchemaName bag) d]
           else [SchemaExists (JobSchemaName bag), CreateSchema (JobSchemaName bag) sd,
                 PostAppDEvents (JobSchemaName bag) d])
      | _ \<Rightarrow> [])"
  by (simp add: postJobRecords_def networkCalls_def Let_def split: option.splits)

lemma postJobRecords_posts:
  "filter isPost (postJobRecords bag be objList) =
     (case (Marshal be objList, MarshalSchemaDef be) of
        (Some d, Some sd) \<Rightarrow> [PostAppDEvents (JobSchemaName bag) d]
      | _ \<Rightarrow> [])"
  by (simp add: postJobRecords_def Let_def split: option.splits)

lemma postJobRecords_no_StopBT: "filter isStopBT (postJobRecords bag be objList) = []"
  by (simp add: postJobRecords_def Let_def split: option.splits)

lemma postJobRecords_no_shutdown_line:
  "Print QueueShutDown \<notin> set (postJobRecords bag be objList)"
  by (simp add: postJobRecords_def Let_def split: option.splits)

subsection \<open>The queue flusher\<close>

lemma getNextQueueItem_Cons:
  "queue wq = x # rest \<Longrightarrow>
   getNextQueueItem wq =
     NextReturns x True (wq\<lparr>queue := rest, processing := removeAll x (processing wq)\<rparr>)"
  by (simp add: getNextQueueItem_def WQ_Get_def WQ_Done_def WQ_Forget_def)

lemma getNextQueueItem_Nil:
  "queue wq = [] \<Longrightarrow>
   getNextQueueItem wq = (if shuttingDown wq then NextPanics TypeAssertion else NextBlocks)"
  by (simp add: getNextQueueItem_def WQ_Get_def)

text \<open>
  The loop, started with a count that the queue can serve: it takes items until the
  count is used up or the list has reached the limit, and at least one.
\<close>

lemma flushLoop_drains:
  "Suc n \<le> length (queue wq) \<Longrightarrow>
   flushLoop bag be (int (Suc n)) objList wq =
     (let k = min (Suc n) (nat (max (EventAPILimit bag - int (length objList)) 1))
      in (Returned, dequeue k wq,
          [Print (SendingRecords (length objList + k))]
          @ postJobRecords bag be (objList @ take k (queue wq))))"
proof (induction n arbitrary: objList wq)
  case 0
  then obtain x rest where q: "queue wq = x # rest"
    by (cases "queue wq") auto
  show ?case
    by (subst flushLoop.simps) (simp add: getNextQueueItem_Cons [OF q] q dequeue_def Let_def)
next
  case (Suc n)
  then obtain x rest where q: "queue wq = x # rest"
    by (cases "queue wq") auto
  let ?wq = "wq\<lparr>queue := rest, processing := removeAll x (processing wq)\<rparr>"
  have len: "Suc n \<le> length (queue ?wq)"
    using Suc.prems q by simp
  note IH = Suc.IH [OF len, of "objList @ [x]"]
  show ?case
  proof (cases "int (length objList) + 1 \<ge> EventAPILimit bag")
    case True
    then show ?thesis
      by (subst flushLoop.simps) (simp add: getNextQueueItem_Cons [OF q] q dequeue_def Let_def)
  next
    case False
    define k' where
      "k' = min (Suc n) (nat (max (EventAPILimit bag - int (length (objList @ [x]))) 1))"
    have k: "min (Suc (Suc n)) (nat (max (EventAPILimit bag - int (length objList)) 1)) = Suc k'"
      unfolding k'_def using False by simp
    have IH': "flushLoop bag be (int (Suc n)) (objList @ [x]) ?wq =
        (Returned, dequeue k' ?wq,
         [Print (SendingRecords (length (objList @ [x]) + k'))]
         @ postJobRecords bag be ((objList @ [x]) @ take k' (queue ?wq)))"
      using IH by (simp only: Let_def k'_def)
    have step: "flushLoop bag be (int (Suc (Suc n))) objList wq =
        (case flushLoop bag be (int (Suc n)) (objList @ [x]) ?wq of
           (out, wq'', evs) \<Rightarrow> (out, wq'', evs))"
      by (subst flushLoop.simps)
         (use False in \<open>simp add: getNextQueueItem_Cons [OF q] Let_def del: flushLoop.simps\<close>)
    show ?thesis
      unfolding step IH' Let_def k by (simp add: dequeue_def q)
  qed
qed

text \<open>
  The loop from any positive count, whatever the queue holds: it blocks, panics or
  returns from inside its body, and never goes on to \<^verbatim>\<open>StopBT\<close>. Only a loop entered
  with a negative count would.
\<close>

lemma flushLoop_no_StopBT:
  "filter isStopBT (snd (snd (flushLoop bag be (int (Suc n)) objList wq))) = []"
proof (induction n arbitrary: objList wq)
  case 0
  show ?case
    by (subst flushLoop.simps)
       (simp add: Let_def postJobRecords_no_StopBT split: nextItem.splits)
next
  case (Suc n)
  show ?case
    apply (subst flushLoop.simps)
    using Suc.IH
    apply (simp add: Let_def postJobRecords_no_StopBT split: nextItem.splits prod.splits
                del: flushLoop.simps)
    apply (metis snd_conv)
    done
qed

lemma flushLoop_exit:
  "count < 0 \<Longrightarrow>
   flushLoop bag be count objList wq = (Returned, wq, [StopBT ''FlushJobEventsQueue''])"
  by (subst flushLoop.simps) simp

text \<open>One flush tick in closed form.\<close>

lemma flushQueue_eq:
  "flushQueue be pw =
     (if queue (WQ pw) = []
      then (Returned, pw,
            [StartBT ''FlushJobEventsQueue'', Print (FlushingTheQueue 0)])
      else (Returned, pw\<lparr>WQ := dequeue (batchSize (Bag pw) (WQ pw)) (WQ pw)\<rparr>,
            [StartBT ''FlushJobEventsQueue'',
             Print (FlushingTheQueue (int (length (queue (WQ pw))))),
             Print (SendingRecords (batchSize (Bag pw) (WQ pw)))]
            @ postJobRecords (Bag pw) be (take (batchSize (Bag pw) (WQ pw)) (queue (WQ pw)))))"
proof (cases "queue (WQ pw)")
  case Nil
  then show ?thesis by (simp add: flushQueue_def WQ_Len_def)
next
  case (Cons x rest)
  then obtain n where n: "length (queue (WQ pw)) = Suc n" by simp
  then have "Suc n \<le> length (queue (WQ pw))" by simp
  from flushLoop_drains [OF this, of "Bag pw" be "[]"] n Cons
  show ?thesis
    by (simp add: flushQueue_def WQ_Len_def Let_def batchSize_def del: flushLoop.simps)
qed

lemma batchSize_limit:
  "1 \<le> EventAPILimit bag \<Longrightarrow>
   batchSize bag q = min (length (queue q)) (nat (EventAPILimit bag))"
  by (simp add: batchSize_def max_def)

lemma batchSize_no_limit:
  "EventAPILimit bag \<le> 0 \<Longrightarrow> queue q \<noteq> [] \<Longrightarrow> batchSize bag q = 1"
  by (cases "queue q") (simp_all add: batchSize_def max_def)

lemma batchSize_bounds:
  "queue q \<noteq> [] \<Longrightarrow> 0 < batchSize bag q \<and> batchSize bag q \<le> length (queue q)"
  by (cases "queue q") (simp_all add: batchSize_def max_def)

text \<open>
  A flush never prints the line for a queue that shut down, whether or not
  \<^verbatim>\<open>ShutDown\<close> was called: \<^verbatim>\<open>Get\<close> hands out the items that are waiting first.
\<close>

lemma flushQueue_no_shutdown_line:
  "fst (flushQueue be pw) = Returned \<and> Print QueueShutDown \<notin> set (snd (snd (flushQueue be pw)))"
  by (simp add: flushQueue_eq postJobRecords_no_shutdown_line)

text \<open>
  C3, as amended: with \<open>n\<close> items waiting and the limit \<open>L\<close> of the configuration, a
  flush tick on an empty queue returns after \<^verbatim>\<open>StartBT\<close> and one printed line, with
  no call on the REST client. On a queue that is not empty it returns after taking
  \<open>min n (max L 1)\<close> items from the head of the queue, which it hands to
  \<^verbatim>\<open>postJobRecords\<close> as one batch; where both serializations succeed, the batch is
  posted by the tick's single \<^verbatim>\<open>PostAppDEvents\<close> call. The number is \<open>min n L\<close> for
  every limit of at least one, and one for a limit of zero or less.
\<close>

theorem flushQueue_batch:
  "(queue (WQ pw) = [] \<longrightarrow>
      flushQueue be pw =
        (Returned, pw, [StartBT ''FlushJobEventsQueue'', Print (FlushingTheQueue 0)]) \<and>
      networkCalls (snd (snd (flushQueue be pw))) = []) \<and>
   (queue (WQ pw) \<noteq> [] \<longrightarrow>
      flushQueue be pw =
        (Returned, pw\<lparr>WQ := dequeue (batchSize (Bag pw) (WQ pw)) (WQ pw)\<rparr>,
         [StartBT ''FlushJobEventsQueue'',
          Print (FlushingTheQueue (int (length (queue (WQ pw))))),
          Print (SendingRecords (batchSize (Bag pw) (WQ pw)))]
         @ postJobRecords (Bag pw) be (take (batchSize (Bag pw) (WQ pw)) (queue (WQ pw)))) \<and>
      length (take (batchSize (Bag pw) (WQ pw)) (queue (WQ pw))) = batchSize (Bag pw) (WQ pw) \<and>
      queue (WQ (fst (snd (flushQueue be pw)))) = drop (batchSize (Bag pw) (WQ pw)) (queue (WQ pw)) \<and>
      (\<forall>d sd. Marshal be (take (batchSize (Bag pw) (WQ pw)) (queue (WQ pw))) = Some d \<and>
               MarshalSchemaDef be = Some sd \<longrightarrow>
         filter isPost (snd (snd (flushQueue be pw)))
           = [PostAppDEvents (JobSchemaName (Bag pw)) d])) \<and>
   (1 \<le> EventAPILimit (Bag pw) \<longrightarrow>
      batchSize (Bag pw) (WQ pw)
        = min (length (queue (WQ pw))) (nat (EventAPILimit (Bag pw)))) \<and>
   (EventAPILimit (Bag pw) \<le> 0 \<and> queue (WQ pw) \<noteq> [] \<longrightarrow> batchSize (Bag pw) (WQ pw) = 1)"
proof (intro conjI impI allI)
  assume "queue (WQ pw) = []"
  then show "flushQueue be pw =
      (Returned, pw, [StartBT ''FlushJobEventsQueue'', Print (FlushingTheQueue 0)])"
    and "networkCalls (snd (snd (flushQueue be pw))) = []"
    by (simp_all add: flushQueue_eq networkCalls_def)
next
  assume ne: "queue (WQ pw) \<noteq> []"
  let ?k = "batchSize (Bag pw) (WQ pw)"
  show "flushQueue be pw =
      (Returned, pw\<lparr>WQ := dequeue ?k (WQ pw)\<rparr>,
       [StartBT ''FlushJobEventsQueue'',
        Print (FlushingTheQueue (int (length (queue (WQ pw))))),
        Print (SendingRecords ?k)]
       @ postJobRecords (Bag pw) be (take ?k (queue (WQ pw))))"
    using ne by (simp add: flushQueue_eq)
  show "length (take ?k (queue (WQ pw))) = ?k"
    using batchSize_bounds [OF ne, of "Bag pw"] by simp
  show "queue (WQ (fst (snd (flushQueue be pw)))) = drop ?k (queue (WQ pw))"
    using ne by (simp add: flushQueue_eq dequeue_def)
next
  fix d sd
  assume ne: "queue (WQ pw) \<noteq> []"
    and m: "Marshal be (take (batchSize (Bag pw) (WQ pw)) (queue (WQ pw))) = Some d \<and>
            MarshalSchemaDef be = Some sd"
  then show "filter isPost (snd (snd (flushQueue be pw)))
      = [PostAppDEvents (JobSchemaName (Bag pw)) d]"
    by (simp add: flushQueue_eq postJobRecords_posts)
next
  assume "1 \<le> EventAPILimit (Bag pw)"
  then show "batchSize (Bag pw) (WQ pw)
      = min (length (queue (WQ pw))) (nat (EventAPILimit (Bag pw)))"
    by (rule batchSize_limit)
next
  assume "EventAPILimit (Bag pw) \<le> 0 \<and> queue (WQ pw) \<noteq> []"
  then show "batchSize (Bag pw) (WQ pw) = 1"
    by (simp add: batchSize_no_limit)
qed

theorem flushQueue_batch_witness:
  "flushQueue exampleBackend (exampleWorker [] []) =
     (Returned, exampleWorker [] [],
      [StartBT ''FlushJobEventsQueue'', Print (FlushingTheQueue 0)]) \<and>
   batchSize exampleBag
     (WQ (exampleWorker [] [exampleRecord ''r1'', exampleRecord ''r2'', exampleRecord ''r3'']))
     = 3 \<and>
   filter isPost (snd (snd (flushQueue exampleBackend
     (exampleWorker [] [exampleRecord ''r1'', exampleRecord ''r2'', exampleRecord ''r3'']))))
     = [PostAppDEvents ''jobs'' ''r1r2r3''] \<and>
   queue (WQ (fst (snd (flushQueue exampleBackend
     (exampleWorker [] [exampleRecord ''r1'', exampleRecord ''r2'', exampleRecord ''r3''])))))
     = [] \<and>
   batchSize (exampleBag\<lparr>EventAPILimit := 0\<rparr>)
     (WQ (exampleWorker [] [exampleRecord ''r1'', exampleRecord ''r2'', exampleRecord ''r3'']))
     = 1"
proof -
  let ?items = "[exampleRecord ''r1'', exampleRecord ''r2'', exampleRecord ''r3'']"
  let ?pw = "exampleWorker [] ?items"
  let ?pz = "?pw\<lparr>Bag := exampleBag\<lparr>EventAPILimit := 0\<rparr>\<rparr>"
  have z: "EventAPILimit (Bag ?pz) \<le> 0 \<and> queue (WQ ?pz) \<noteq> []"
    "Bag ?pz = exampleBag\<lparr>EventAPILimit := 0\<rparr>" "WQ ?pz = WQ ?pw"
    by (simp_all add: exampleWorker_def)
  from flushQueue_batch [of ?pz exampleBackend] z(1)
  have "batchSize (Bag ?pz) (WQ ?pz) = 1"
    by blast
  then have one: "batchSize (exampleBag\<lparr>EventAPILimit := 0\<rparr>) (WQ ?pw) = 1"
    by (simp only: z(2,3))
  have e: "queue (WQ (exampleWorker [] [])) = []"
    by (simp add: exampleWorker_def)
  have q: "queue (WQ ?pw) = ?items" "queue (WQ ?pw) \<noteq> []" "Bag ?pw = exampleBag"
    "1 \<le> EventAPILimit (Bag ?pw)" "nat (EventAPILimit (Bag ?pw)) = 10"
    "JobSchemaName (Bag ?pw) = ''jobs''"
    by (simp_all add: exampleWorker_def exampleBag_def)
  have m: "Marshal exampleBackend ?items = Some ''r1r2r3''"
    "MarshalSchemaDef exampleBackend = Some ''schema''"
    by (simp_all add: exampleBackend_def exampleRecord_def)
  note t0 = flushQueue_batch [of "exampleWorker [] []" exampleBackend]
  note t3 = flushQueue_batch [of ?pw exampleBackend]
  from t3 q have k: "batchSize exampleBag (WQ ?pw) = 3"
    by simp
  from t3 q(2) have
    "\<forall>d sd. Marshal exampleBackend (take (batchSize (Bag ?pw) (WQ ?pw)) (queue (WQ ?pw))) = Some d \<and>
             MarshalSchemaDef exampleBackend = Some sd \<longrightarrow>
       filter isPost (snd (snd (flushQueue exampleBackend ?pw)))
         = [PostAppDEvents (JobSchemaName (Bag ?pw)) d]"
    and dr: "queue (WQ (fst (snd (flushQueue exampleBackend ?pw))))
         = drop (batchSize (Bag ?pw) (WQ ?pw)) (queue (WQ ?pw))"
    by blast+
  with m k q have p: "filter isPost (snd (snd (flushQueue exampleBackend ?pw)))
      = [PostAppDEvents ''jobs'' ''r1r2r3'']"
    by simp
  from dr k q have "queue (WQ (fst (snd (flushQueue exampleBackend ?pw)))) = []"
    by simp
  with t0 e k p one show ?thesis
    by simp
qed

text \<open>
  With a limit of zero and two items waiting, the tick takes and posts the first item
  and leaves the second, where \<open>min n L\<close> is zero.
\<close>

theorem flushQueue_limit_zero:
  "filter isPost (snd (snd (flushQueue exampleBackend
     ((exampleWorker [] [exampleRecord ''r1'', exampleRecord ''r2''])
        \<lparr>Bag := exampleBag\<lparr>EventAPILimit := 0\<rparr>\<rparr>))))
     = [PostAppDEvents ''jobs'' ''r1''] \<and>
   queue (WQ (fst (snd (flushQueue exampleBackend
     ((exampleWorker [] [exampleRecord ''r1'', exampleRecord ''r2''])
        \<lparr>Bag := exampleBag\<lparr>EventAPILimit := 0\<rparr>\<rparr>)))))
     = [exampleRecord ''r2''] \<and>
   min (WQ_Len (WQ ((exampleWorker [] [exampleRecord ''r1'', exampleRecord ''r2''])
        \<lparr>Bag := exampleBag\<lparr>EventAPILimit := 0\<rparr>\<rparr>)))
       (EventAPILimit (Bag ((exampleWorker [] [exampleRecord ''r1'', exampleRecord ''r2''])
        \<lparr>Bag := exampleBag\<lparr>EventAPILimit := 0\<rparr>\<rparr>))) = 0"
  by (simp add: flushQueue_eq postJobRecords_posts batchSize_def dequeue_def WQ_Len_def
        exampleWorker_def exampleBag_def exampleBackend_def exampleRecord_def)

text \<open>
  C4, as amended: when the queue is shut down while items are still waiting and their
  number is within the batch limit, the flusher does not observe the shutdown. Whether
  \<^verbatim>\<open>ShutDown\<close> came before the tick or between two rounds of the drain loop, the
  loop goes on to take every item it counted, hands them to \<^verbatim>\<open>postJobRecords\<close> as one
  batch, prints no line about a shutdown, and returns: it does not panic. Where both
  serializations succeed, the batch is posted by a single \<^verbatim>\<open>PostAppDEvents\<close> call.
\<close>

theorem flushQueue_shutdown_pending:
  assumes "shuttingDown wq" and "Suc m \<le> length (queue wq)"
    and "int (length objList) + int (Suc m) \<le> EventAPILimit bag"
  shows "flushLoop bag be (int (Suc m)) objList wq =
           (Returned, dequeue (Suc m) wq,
            [Print (SendingRecords (length objList + Suc m))]
            @ postJobRecords bag be (objList @ take (Suc m) (queue wq))) \<and>
         shuttingDown (dequeue (Suc m) wq) \<and>
         Print QueueShutDown \<notin> set (snd (snd (flushLoop bag be (int (Suc m)) objList wq))) \<and>
         (\<forall>d sd. Marshal be (objList @ take (Suc m) (queue wq)) = Some d \<and>
                  MarshalSchemaDef be = Some sd \<longrightarrow>
            filter isPost (snd (snd (flushLoop bag be (int (Suc m)) objList wq)))
              = [PostAppDEvents (JobSchemaName bag) d]) \<and>
         (\<forall>pw. WQ pw = wq \<and> Bag pw = bag \<and> length (queue wq) = Suc m \<longrightarrow>
            fst (flushQueue be pw) = Returned \<and>
            Print QueueShutDown \<notin> set (snd (snd (flushQueue be pw))) \<and>
            queue (WQ (fst (snd (flushQueue be pw)))) = [] \<and>
            snd (snd (flushQueue be pw)) =
              [StartBT ''FlushJobEventsQueue'', Print (FlushingTheQueue (int (Suc m))),
               Print (SendingRecords (Suc m))]
              @ postJobRecords bag be (queue wq) \<and>
            (\<forall>d sd. Marshal be (queue wq) = Some d \<and> MarshalSchemaDef be = Some sd \<longrightarrow>
               filter isPost (snd (snd (flushQueue be pw)))
                 = [PostAppDEvents (JobSchemaName bag) d]))"
proof -
  have k: "min (Suc m) (nat (max (EventAPILimit bag - int (length objList)) 1)) = Suc m"
    using assms(3) by simp
  have loop: "flushLoop bag be (int (Suc m)) objList wq =
      (Returned, dequeue (Suc m) wq,
       [Print (SendingRecords (length objList + Suc m))]
       @ postJobRecords bag be (objList @ take (Suc m) (queue wq)))"
    using flushLoop_drains [OF assms(2), of bag be objList] by (simp only: Let_def k)
  have flag: "shuttingDown (dequeue (Suc m) wq)"
    using assms(1) by (simp add: dequeue_def)
  have quiet: "Print QueueShutDown \<notin> set (snd (snd (flushLoop bag be (int (Suc m)) objList wq)))"
    unfolding loop by (simp add: postJobRecords_no_shutdown_line)
  have posted: "filter isPost (snd (snd (flushLoop bag be (int (Suc m)) objList wq)))
      = [PostAppDEvents (JobSchemaName bag) d]"
    if "Marshal be (objList @ take (Suc m) (queue wq)) = Some d \<and> MarshalSchemaDef be = Some sd"
    for d sd
    unfolding loop using that by (simp add: postJobRecords_posts)
  have tick: "fst (flushQueue be pw) = Returned \<and>
      Print QueueShutDown \<notin> set (snd (snd (flushQueue be pw))) \<and>
      queue (WQ (fst (snd (flushQueue be pw)))) = [] \<and>
      snd (snd (flushQueue be pw)) =
        [StartBT ''FlushJobEventsQueue'', Print (FlushingTheQueue (int (Suc m))),
         Print (SendingRecords (Suc m))]
        @ postJobRecords bag be (queue wq) \<and>
      (\<forall>d sd. Marshal be (queue wq) = Some d \<and> MarshalSchemaDef be = Some sd \<longrightarrow>
         filter isPost (snd (snd (flushQueue be pw)))
           = [PostAppDEvents (JobSchemaName bag) d])"
    if "WQ pw = wq" "Bag pw = bag" "length (queue wq) = Suc m" for pw
  proof -
    from that have ne: "queue (WQ pw) \<noteq> []" by auto
    from that assms(3) have b: "batchSize (Bag pw) (WQ pw) = Suc m"
      by (simp add: batchSize_def)
    from ne b that show ?thesis
      by (simp add: flushQueue_eq dequeue_def postJobRecords_no_shutdown_line
            postJobRecords_posts)
  qed
  from loop flag quiet posted tick show ?thesis by blast
qed

theorem flushQueue_shutdown_pending_witness:
  "flushLoop exampleBag exampleBackend 3 [exampleRecord ''r1'', exampleRecord ''r2'']
     \<lparr>queue = [exampleRecord ''r3'', exampleRecord ''r4'', exampleRecord ''r5''],
      processing = [], shuttingDown = True\<rparr>
   = (Returned, \<lparr>queue = [], processing = [], shuttingDown = True\<rparr>,
      [Print (SendingRecords 5), Print (SchemaDefLine ''schema''), SchemaExists ''jobs'',
       Print (CreatingSchema ''jobs''), CreateSchema ''jobs'' ''schema'',
       Print (SchemaCreated ''jobs''), Print AboutToPost,
       PostAppDEvents ''jobs'' ''r1r2r3r4r5'']) \<and>
   fst (flushQueue exampleBackend
     ((exampleWorker [] [exampleRecord ''r1'', exampleRecord ''r2''])
        \<lparr>WQ := \<lparr>queue = [exampleRecord ''r1'', exampleRecord ''r2''], processing = [],
                 shuttingDown = True\<rparr>\<rparr>))
     = Returned \<and>
   queue (WQ (fst (snd (flushQueue exampleBackend
     ((exampleWorker [] [exampleRecord ''r1'', exampleRecord ''r2''])
        \<lparr>WQ := \<lparr>queue = [exampleRecord ''r1'', exampleRecord ''r2''], processing = [],
                 shuttingDown = True\<rparr>\<rparr>)))))
     = [] \<and>
   filter isPost (snd (snd (flushQueue exampleBackend
     ((exampleWorker [] [exampleRecord ''r1'', exampleRecord ''r2''])
        \<lparr>WQ := \<lparr>queue = [exampleRecord ''r1'', exampleRecord ''r2''], processing = [],
                 shuttingDown = True\<rparr>\<rparr>))))
     = [PostAppDEvents ''jobs'' ''r1r2'']"
proof -
  let ?wq = "\<lparr>queue = [exampleRecord ''r3'', exampleRecord ''r4'', exampleRecord ''r5''],
             processing = [], shuttingDown = True\<rparr>"
  let ?objList = "[exampleRecord ''r1'', exampleRecord ''r2'']"
  let ?wq2 = "\<lparr>queue = [exampleRecord ''r1'', exampleRecord ''r2''], processing = [],
              shuttingDown = True\<rparr>"
  let ?pw2 = "(exampleWorker [] [exampleRecord ''r1'', exampleRecord ''r2''])\<lparr>WQ := ?wq2\<rparr>"
  have g1: "shuttingDown ?wq2" by simp
  have g2: "Suc 1 \<le> length (queue ?wq2)" by simp
  have g3: "int (length ([] :: int JobSchema list)) + int (Suc 1) \<le> EventAPILimit exampleBag"
    by (simp add: exampleBag_def)
  have g4: "WQ ?pw2 = ?wq2 \<and> Bag ?pw2 = exampleBag \<and> length (queue ?wq2) = Suc 1"
    by (simp add: exampleWorker_def)
  have g5: "Marshal exampleBackend (queue ?wq2) = Some ''r1r2'' \<and>
      MarshalSchemaDef exampleBackend = Some ''schema''"
    "JobSchemaName exampleBag = ''jobs''"
    by (simp_all add: exampleBackend_def exampleRecord_def exampleBag_def)
  from flushQueue_shutdown_pending [OF g1 g2 g3, of exampleBackend] g4
  have tick0: "fst (flushQueue exampleBackend ?pw2) = Returned \<and>
      queue (WQ (fst (snd (flushQueue exampleBackend ?pw2)))) = [] \<and>
      (\<forall>d sd. Marshal exampleBackend (queue ?wq2) = Some d \<and>
               MarshalSchemaDef exampleBackend = Some sd \<longrightarrow>
         filter isPost (snd (snd (flushQueue exampleBackend ?pw2)))
           = [PostAppDEvents (JobSchemaName exampleBag) d])"
    by blast
  with g5 have tick: "fst (flushQueue exampleBackend ?pw2) = Returned \<and>
      queue (WQ (fst (snd (flushQueue exampleBackend ?pw2)))) = [] \<and>
      filter isPost (snd (snd (flushQueue exampleBackend ?pw2)))
        = [PostAppDEvents ''jobs'' ''r1r2'']"
    by metis
  have h1: "shuttingDown ?wq" by simp
  have h2: "Suc 2 \<le> length (queue ?wq)" by simp
  have h3: "int (length ?objList) + int (Suc 2) \<le> EventAPILimit exampleBag"
    by (simp add: exampleBag_def)
  have n: "int (Suc 2) = 3" "length ?objList + Suc 2 = 5" by simp_all
  from flushQueue_shutdown_pending [OF h1 h2 h3, of exampleBackend]
  have "flushLoop exampleBag exampleBackend (int (Suc 2)) ?objList ?wq =
      (Returned, dequeue (Suc 2) ?wq,
       [Print (SendingRecords (length ?objList + Suc 2))]
       @ postJobRecords exampleBag exampleBackend (?objList @ take (Suc 2) (queue ?wq)))"
    by blast
  then have "flushLoop exampleBag exampleBackend 3 ?objList ?wq
      = (Returned, \<lparr>queue = [], processing = [], shuttingDown = True\<rparr>,
         [Print (SendingRecords 5), Print (SchemaDefLine ''schema''), SchemaExists ''jobs'',
          Print (CreatingSchema ''jobs''), CreateSchema ''jobs'' ''schema'',
          Print (SchemaCreated ''jobs''), Print AboutToPost,
          PostAppDEvents ''jobs'' ''r1r2r3r4r5''])"
    unfolding n
    by (simp add: dequeue_def postJobRecords_def exampleBag_def exampleBackend_def
          exampleRecord_def)
  with tick show ?thesis
    by blast
qed

text \<open>
  The shutdown scenario of the spec: five items waiting, a limit of ten, the queue shut down.
  The tick posts the five records and prints no line about the shutdown.
\<close>

theorem flushQueue_shutdown_not_logged:
  "fst (flushQueue exampleBackend
     ((exampleWorker [] [exampleRecord ''r1'', exampleRecord ''r2'', exampleRecord ''r3'',
                         exampleRecord ''r4'', exampleRecord ''r5''])
        \<lparr>WQ := WQ_ShutDown (WQ (exampleWorker [] [exampleRecord ''r1'', exampleRecord ''r2'',
               exampleRecord ''r3'', exampleRecord ''r4'', exampleRecord ''r5'']))\<rparr>))
     = Returned \<and>
   Print QueueShutDown \<notin> set (snd (snd (flushQueue exampleBackend
     ((exampleWorker [] [exampleRecord ''r1'', exampleRecord ''r2'', exampleRecord ''r3'',
                         exampleRecord ''r4'', exampleRecord ''r5''])
        \<lparr>WQ := WQ_ShutDown (WQ (exampleWorker [] [exampleRecord ''r1'', exampleRecord ''r2'',
               exampleRecord ''r3'', exampleRecord ''r4'', exampleRecord ''r5'']))\<rparr>)))) \<and>
   filter isPost (snd (snd (flushQueue exampleBackend
     ((exampleWorker [] [exampleRecord ''r1'', exampleRecord ''r2'', exampleRecord ''r3'',
                         exampleRecord ''r4'', exampleRecord ''r5''])
        \<lparr>WQ := WQ_ShutDown (WQ (exampleWorker [] [exampleRecord ''r1'', exampleRecord ''r2'',
               exampleRecord ''r3'', exampleRecord ''r4'', exampleRecord ''r5'']))\<rparr>))))
     = [PostAppDEvents ''jobs'' ''r1r2r3r4r5'']"
  by (simp add: flushQueue_eq postJobRecords_posts postJobRecords_no_shutdown_line
        batchSize_def WQ_ShutDown_def exampleWorker_def exampleBag_def exampleBackend_def
        exampleRecord_def)

text \<open>
  The path on which \<^verbatim>\<open>Get\<close> does report the shutdown, an empty queue that was shut
  down: \<^verbatim>\<open>getNextQueueItem\<close> panics in its type assertion, and so does the drain loop
  when it reaches such a queue with a count left.
\<close>

lemma getNextQueueItem_shutdown_panics:
  "WQ_Get (wq\<lparr>queue := [], shuttingDown := True\<rparr>)
     = GetReturns None True (wq\<lparr>queue := [], shuttingDown := True\<rparr>) \<and>
   getNextQueueItem (wq\<lparr>queue := [], shuttingDown := True\<rparr>) = NextPanics TypeAssertion \<and>
   flushLoop bag be 5 [] (wq\<lparr>queue := [], shuttingDown := True\<rparr>)
     = (Panicked TypeAssertion, wq\<lparr>queue := [], shuttingDown := True\<rparr>, [])"
  by (simp add: getNextQueueItem_def WQ_Get_def)

text \<open>
  C6: where both serializations succeed, the calls of \<^verbatim>\<open>postJobRecords\<close> on the REST
  client are \<^verbatim>\<open>SchemaExists\<close>, then \<^verbatim>\<open>CreateSchema\<close> once if the schema was reported
  missing and not at all if it was reported to exist, then \<^verbatim>\<open>PostAppDEvents\<close>. These
  are all the calls on the REST client of a flush tick that found the queue not empty.
\<close>

theorem postJobRecords_schema_provisioning:
  assumes "Marshal be objList = Some d" and "MarshalSchemaDef be = Some sd"
  shows "networkCalls (postJobRecords bag be objList) =
           (if SchemaExistsReply be (JobSchemaName bag)
            then [SchemaExists (JobSchemaName bag), PostAppDEvents (JobSchemaName bag) d]
            else [SchemaExists (JobSchemaName bag), CreateSchema (JobSchemaName bag) sd,
                  PostAppDEvents (JobSchemaName bag) d]) \<and>
         (queue (WQ pw) \<noteq> [] \<and> bag = Bag pw \<and>
          objList = take (batchSize (Bag pw) (WQ pw)) (queue (WQ pw)) \<longrightarrow>
            networkCalls (snd (snd (flushQueue be pw)))
              = networkCalls (postJobRecords bag be objList))"
proof -
  have a: "networkCalls (postJobRecords bag be objList) =
      (if SchemaExistsReply be (JobSchemaName bag)
       then [SchemaExists (JobSchemaName bag), PostAppDEvents (JobSchemaName bag) d]
       else [SchemaExists (JobSchemaName bag), CreateSchema (JobSchemaName bag) sd,
             PostAppDEvents (JobSchemaName bag) d])"
    using assms by (simp add: postJobRecords_calls)
  have b: "networkCalls (snd (snd (flushQueue be pw)))
      = networkCalls (postJobRecords (Bag pw) be
          (take (batchSize (Bag pw) (WQ pw)) (queue (WQ pw))))"
    if "queue (WQ pw) \<noteq> []"
    using that by (simp add: flushQueue_eq networkCalls_def)
  from a b show ?thesis by blast
qed

theorem postJobRecords_schema_provisioning_witness:
  "networkCalls (postJobRecords exampleBag exampleBackend [exampleRecord ''r1''])
     = [SchemaExists ''jobs'', CreateSchema ''jobs'' ''schema'', PostAppDEvents ''jobs'' ''r1''] \<and>
   networkCalls (postJobRecords exampleBag
       (exampleBackend\<lparr>SchemaExistsReply := (\<lambda>name. True)\<rparr>) [exampleRecord ''r1''])
     = [SchemaExists ''jobs'', PostAppDEvents ''jobs'' ''r1''] \<and>
   networkCalls (snd (snd (flushQueue exampleBackend (exampleWorker [] [exampleRecord ''r1'']))))
     = [SchemaExists ''jobs'', CreateSchema ''jobs'' ''schema'', PostAppDEvents ''jobs'' ''r1'']"
proof -
  let ?be = "exampleBackend\<lparr>SchemaExistsReply := (\<lambda>name. True)\<rparr>"
  let ?pw = "exampleWorker [] [exampleRecord ''r1'']"
  have m: "Marshal exampleBackend [exampleRecord ''r1''] = Some ''r1''"
    "MarshalSchemaDef exampleBackend = Some ''schema''"
    "Marshal ?be [exampleRecord ''r1''] = Some ''r1''"
    "MarshalSchemaDef ?be = Some ''schema''"
    by (simp_all add: exampleBackend_def exampleRecord_def)
  have r: "\<not> SchemaExistsReply exampleBackend (JobSchemaName exampleBag)"
    "SchemaExistsReply ?be (JobSchemaName exampleBag)"
    "JobSchemaName exampleBag = ''jobs''"
    by (simp_all add: exampleBackend_def exampleBag_def)
  have q: "queue (WQ ?pw) \<noteq> []" "exampleBag = Bag ?pw"
    "[exampleRecord ''r1''] = take (batchSize (Bag ?pw) (WQ ?pw)) (queue (WQ ?pw))"
    by (simp_all add: exampleWorker_def batchSize_def exampleBag_def)
  from postJobRecords_schema_provisioning [OF m(1,2), of exampleBag ?pw] r q
  have a: "networkCalls (postJobRecords exampleBag exampleBackend [exampleRecord ''r1''])
      = [SchemaExists ''jobs'', CreateSchema ''jobs'' ''schema'', PostAppDEvents ''jobs'' ''r1'']"
    and c: "networkCalls (snd (snd (flushQueue exampleBackend ?pw)))
      = networkCalls (postJobRecords exampleBag exampleBackend [exampleRecord ''r1''])"
    by simp_all
  from postJobRecords_schema_provisioning [OF m(3,4), of exampleBag ?pw] r
  have b: "networkCalls (postJobRecords exampleBag ?be [exampleRecord ''r1''])
      = [SchemaExists ''jobs'', PostAppDEvents ''jobs'' ''r1'']"
    by simp
  from a b c show ?thesis by simp
qed

text \<open>
  C10: every flush tick returns; its first event is \<^verbatim>\<open>StartBT\<close>, and no \<^verbatim>\<open>StopBT\<close>
  follows. The tick returns either on the empty queue or from inside the loop, after it
  printed the size of the batch and called \<^verbatim>\<open>postJobRecords\<close>.
\<close>

theorem flushQueue_leaves_BT_open:
  "\<exists>evs. snd (snd (flushQueue be pw)) = StartBT ''FlushJobEventsQueue'' # evs \<and>
         filter isStopBT evs = [] \<and>
         fst (flushQueue be pw) = Returned \<and>
         (queue (WQ pw) = [] \<or>
          Print (SendingRecords (batchSize (Bag pw) (WQ pw))) \<in> set evs)"
  by (simp add: flushQueue_eq postJobRecords_no_StopBT)

subsection \<open>Construction and the event handlers\<close>

text \<open>
  C7: when the batch client cannot be constructed, \<^verbatim>\<open>NewJobsWorker\<close> prints the error
  and returns a worker whose informer is \<^verbatim>\<open>nil\<close>, with nothing that tells its caller.
  \<^verbatim>\<open>HasSynced\<close> and the aggregation pass panic on that worker.
\<close>

theorem NewJobsWorker_client_failure:
  "NewJobsWorker (Inl err) bag =
     (\<lparr>informer = None, Bag = bag, SummaryMap = Map.empty,
       WQ = \<lparr>queue = [], processing = [], shuttingDown = False\<rparr>\<rparr>,
      [Print (BatchClientIssue err)]) \<and>
   HasSynced (fst (NewJobsWorker (Inl err) bag)) = Inl NilDereference \<and>
   buildAppDMetrics rt (fst (NewJobsWorker (Inl err) bag)) = Inl NilDereference"
  by (simp add: NewJobsWorker_def initJobInformer_def HasSynced_def buildAppDMetrics_def)

text \<open>
  C8: the three handlers assert that the object is a \<^verbatim>\<open>*v1.Node\<close>. On a job, the kind
  of object the informer lists and watches, each of them panics.
\<close>

theorem handlers_panic_on_job:
  "onNewJob (JobObject j) = Inl TypeAssertion \<and>
   onDeleteJob (JobObject j) = Inl TypeAssertion \<and>
   onUpdateJob (JobObject j) objNew = Inl TypeAssertion \<and>
   onNewJob OtherObject = Inl TypeAssertion"
  by (simp add: onNewJob_def onDeleteJob_def onUpdateJob_def)

end
